theory Spec2Isabelle
  imports Complex_Main
begin

section \<open>The objects of examples/expsyn/ExpSyn.ipynb\<close>

text \<open>
  The notebook is straight-line Python: every statement binds a name to a
  literal, to an arithmetic expression or to an object of the \<open>bluepyopt\<close>
  package built from keyword arguments. Each class is embedded as the data its
  constructor call is given, each notebook variable as a constant of the same
  name. Python's \<open>int\<close> literals that enter integer arithmetic are \<open>int\<close>;
  values that NEURON and eFEL treat as floating-point quantities are modelled
  as \<open>real\<close>. A dictionary whose items are read in order is an association
  list.
\<close>

datatype NrnSimulator = NrnSimulator

datatype NrnFileMorphology = NrnFileMorphology (morphology_path: string)

datatype location =
    NrnSeclistLocation (loc_name: string) (seclist_name: string)
  | NrnSeclistCompLocation (loc_name: string) (seclist_name: string)
      (sec_index: int) (comp_x: real)
  | NrnPointProcessLocation (loc_name: string) (pprocess_mech: mechanism)
and mechanism =
    NrnMODMechanism (mech_name: string) (suffix: string)
      (mech_locations: "location list")
  | NrnMODPointProcessMechanism (mech_name: string) (suffix: string)
      (mech_locations: "location list")

record NrnPointProcessParameter =
  par_name :: string
  param_name :: string
  par_value :: real
  bounds :: "real list"
  par_locations :: "location list"

record CellModel =
  cm_name :: string
  morph_of :: NrnFileMorphology
  mechs :: "mechanism list"
  params :: "NrnPointProcessParameter list"

record NrnNetStimStimulus =
  total_duration :: int
  ns_number :: int
  ns_interval :: int
  start :: int
  weight :: real
  ns_locations :: "location list"

record CompRecording =
  rec_name :: string
  rec_location :: location
  variable :: string

record SweepProtocol =
  prot_name :: string
  stimuli :: "NrnNetStimStimulus list"
  recordings :: "CompRecording list"

record eFELFeature =
  ef_name :: string
  efel_feature_name :: string
  recording_names :: "(string \<times> string) list"
  ef_stim_start :: int
  ef_stim_end :: int
  exp_mean :: real
  exp_std :: real

record SingletonObjective =
  obj_name :: string
  obj_feature :: eFELFeature

record ObjectivesCalculator =
  objectives :: "SingletonObjective list"

record CellEvaluator =
  cell_model :: CellModel
  param_names :: "string list"
  fitness_protocols :: "(string \<times> SweepProtocol) list"
  fitness_calculator :: ObjectivesCalculator
  sim :: NrnSimulator

record DEAPOptimisation =
  evaluator :: CellEvaluator
  offspring_size :: nat

subsection \<open>Simulator, morphology and locations\<close>

definition nrn_sim :: NrnSimulator where
  "nrn_sim = NrnSimulator"

definition morph :: NrnFileMorphology where
  "morph = NrnFileMorphology ''simple.swc''"

definition somatic_loc :: location where
  "somatic_loc = NrnSeclistLocation ''somatic'' ''somatic''"

definition somacenter_loc :: location where
  "somacenter_loc = NrnSeclistCompLocation ''somacenter'' ''somatic'' 0 0.5"

subsection \<open>Mechanisms, the synapse parameter and the cell model\<close>

definition pas_mech :: mechanism where
  "pas_mech = NrnMODMechanism ''pas'' ''pas'' [somatic_loc]"

definition expsyn_mech :: mechanism where
  "expsyn_mech = NrnMODPointProcessMechanism ''expsyn'' ''ExpSyn'' [somacenter_loc]"

definition expsyn_loc :: location where
  "expsyn_loc = NrnPointProcessLocation ''expsyn_loc'' expsyn_mech"

definition expsyn_tau_param :: NrnPointProcessParameter where
  "expsyn_tau_param =
     \<lparr>par_name = ''expsyn_tau'', param_name = ''tau'', par_value = 2,
      bounds = [0, 50], par_locations = [expsyn_loc]\<rparr>"

definition cell :: CellModel where
  "cell =
     \<lparr>cm_name = ''simple_cell'', morph_of = morph,
      mechs = [pas_mech, expsyn_mech], params = [expsyn_tau_param]\<rparr>"

subsection \<open>Stimulus, recording and protocol\<close>

definition stim_start :: int where
  "stim_start = 20"

definition number :: int where
  "number = 5"

definition interval :: int where
  "interval = 5"

definition netstim :: NrnNetStimStimulus where
  "netstim =
     \<lparr>total_duration = 200, ns_number = 5, ns_interval = 5, start = stim_start,
      weight = 5 / 10000, ns_locations = [expsyn_loc]\<rparr>"

definition stim_end :: int where
  "stim_end = stim_start + interval * number"

definition rec :: CompRecording where
  "rec = \<lparr>rec_name = ''soma.v'', rec_location = somacenter_loc, variable = ''v''\<rparr>"

definition protocol :: SweepProtocol where
  "protocol =
     \<lparr>prot_name = ''netstim_protocol'', stimuli = [netstim], recordings = [rec]\<rparr>"

subsection \<open>Feature, objective, score calculator and evaluator\<close>

definition max_volt_feature :: eFELFeature where
  "max_volt_feature =
     \<lparr>ef_name = ''maximum_voltage'', efel_feature_name = ''maximum_voltage'',
      recording_names = [('''', ''soma.v'')],
      ef_stim_start = stim_start, ef_stim_end = stim_end,
      exp_mean = - 50, exp_std = 1 / 10\<rparr>"

definition max_volt_objective :: SingletonObjective where
  "max_volt_objective =
     \<lparr>obj_name = ef_name max_volt_feature, obj_feature = max_volt_feature\<rparr>"

definition score_calc :: ObjectivesCalculator where
  "score_calc = \<lparr>objectives = [max_volt_objective]\<rparr>"

definition cell_evaluator :: CellEvaluator where
  "cell_evaluator =
     \<lparr>cell_model = cell, param_names = [''expsyn_tau''],
      fitness_protocols = [(prot_name protocol, protocol)],
      fitness_calculator = score_calc, sim = nrn_sim\<rparr>"

definition default_param_values :: "(string \<times> real) list" where
  "default_param_values = [(''expsyn_tau'', 10)]"

subsection \<open>Optimisation\<close>

definition optimisation :: DEAPOptimisation where
  "optimisation = \<lparr>evaluator = cell_evaluator, offspring_size = 10\<rparr>"

section \<open>Behaviour of the library classes the notebook calls\<close>

text \<open>
  Modelled from the spec: the presynaptic events of
  \<open>bluepyopt.ephys.stimuli.NrnNetStimStimulus\<close>, a class the notebook
  instantiates and does not define. The stimulus is given a start time, an
  interval and a number of events and no noise; it delivers \<open>number\<close>
  events, the first at \<open>start\<close> and each following one \<open>interval\<close> later.
\<close>

definition event_times :: "NrnNetStimStimulus \<Rightarrow> int list" where
  "event_times s = map (\<lambda>k. start s + ns_interval s * int k) [0 ..< nat (ns_number s)]"

text \<open>
  What the NEURON simulator behind \<open>NrnSimulator\<close> records and what eFEL
  extracts are computed outside the repository. Both are parameters of the
  model: \<open>neuron\<close> gives the trace a recording holds after the cell model,
  with its parameters set, has been driven by the stimuli; \<open>efel\<close> gives the
  value of a named feature of a trace over a stimulus window, or nothing when
  the feature cannot be computed.
\<close>

record response =
  time :: "real list"
  voltage :: "real list"

type_synonym responses = "string \<rightharpoonup> response"

type_synonym neuron =
  "CellModel \<Rightarrow> NrnNetStimStimulus list \<Rightarrow> CompRecording \<Rightarrow> response"

type_synonym efel = "string \<Rightarrow> int \<Rightarrow> int \<Rightarrow> response \<Rightarrow> real option"

datatype error =
    KeyError string
  | OutOfBounds string real
  | NoStimuli
  | MissingMainRecording

text \<open>
  Modelled from the spec: the bounds check of a parameter
  (\<open>bluepyopt.parameters.Parameter\<close>, which the notebook does not define). A
  value is admitted when it lies between the lower and the upper bound the
  parameter was declared with, both included; a parameter declared without a
  pair of bounds admits every value.
\<close>

definition within_bounds :: "NrnPointProcessParameter \<Rightarrow> real \<Rightarrow> bool" where
  "within_bounds p v = (case bounds p of lo # hi # _ \<Rightarrow> lo \<le> v \<and> v \<le> hi | _ \<Rightarrow> True)"

text \<open>
  Modelled from the spec: setting one named parameter of a cell model, one
  step of \<open>CellModel.freeze\<close> (\<open>bluepyopt.ephys.models\<close>, which the notebook
  does not define). The parameter of that name takes the value; a name the
  cell model has no parameter for raises, and so does a value outside the
  parameter's bounds.
\<close>

fun freeze_named ::
  "string \<Rightarrow> real \<Rightarrow> NrnPointProcessParameter list \<Rightarrow> error + NrnPointProcessParameter list" where
  "freeze_named n v [] = Inl (KeyError n)"
| "freeze_named n v (p # ps) =
     (if par_name p = n then
        (if within_bounds p v then Inr (p\<lparr>par_value := v\<rparr> # ps) else Inl (OutOfBounds n v))
      else
        (case freeze_named n v ps of Inl e \<Rightarrow> Inl e | Inr ps' \<Rightarrow> Inr (p # ps')))"

text \<open>
  Modelled from the spec: \<open>CellModel.freeze\<close> of \<open>bluepyopt.ephys.models\<close>,
  which the notebook does not define. The items of the parameter dictionary
  are set one after the other, and the first that raises ends the loop. A
  parameter the dictionary does not name keeps its declared value.
\<close>

fun CellModel_freeze :: "CellModel \<Rightarrow> (string \<times> real) list \<Rightarrow> error + CellModel" where
  "CellModel_freeze cm [] = Inr cm"
| "CellModel_freeze cm ((n, v) # items) =
     (case freeze_named n v (params cm) of
        Inl e \<Rightarrow> Inl e
      | Inr ps \<Rightarrow> CellModel_freeze (cm\<lparr>params := ps\<rparr>) items)"

text \<open>
  Modelled from the spec: \<open>SweepProtocol.run\<close> of \<open>bluepyopt.ephys.protocols\<close>,
  which the notebook calls and does not define. Running a protocol sets the
  parameters of the cell model from the dictionary, simulates the cell model
  under the protocol's stimuli for the longest of their durations, and
  returns the responses as a dictionary from each recording's name to its
  trace. A protocol without stimuli has no duration and raises.
\<close>

definition SweepProtocol_run ::
  "neuron \<Rightarrow> SweepProtocol \<Rightarrow> CellModel \<Rightarrow> (string \<times> real) list \<Rightarrow> error + responses" where
  "SweepProtocol_run nrn p cm param_values =
     (case CellModel_freeze cm param_values of
        Inl e \<Rightarrow> Inl e
      | Inr frozen \<Rightarrow>
          if stimuli p = [] then Inl NoStimuli
          else Inr (foldl (\<lambda>resp r. resp(rec_name r \<mapsto> nrn frozen (stimuli p) r))
                 Map.empty (recordings p)))"

text \<open>
  Modelled from the spec: the loop of \<open>CellEvaluator.run_protocols\<close>
  (\<open>bluepyopt.ephys.evaluators\<close>, which the notebook does not define) over the
  protocols. Each protocol is run on the cell model and its responses are
  merged into those gathered so far, a later recording replacing an earlier
  one of the same name; the first protocol that raises ends the loop.
\<close>

fun run_protocols_from ::
  "neuron \<Rightarrow> CellModel \<Rightarrow> (string \<times> real) list \<Rightarrow> responses \<Rightarrow> SweepProtocol list
     \<Rightarrow> error + responses" where
  "run_protocols_from nrn cm param_values acc [] = Inr acc"
| "run_protocols_from nrn cm param_values acc (p # ps) =
     (case SweepProtocol_run nrn p cm param_values of
        Inl e \<Rightarrow> Inl e
      | Inr resp \<Rightarrow> run_protocols_from nrn cm param_values (acc ++ resp) ps)"

text \<open>
  Modelled from the spec: \<open>CellEvaluator.run_protocols\<close> of
  \<open>bluepyopt.ephys.evaluators\<close>, which the notebook does not define. The
  evaluator runs each of its fitness protocols on its cell model with the
  given parameter values.
\<close>

definition run_protocols ::
  "neuron \<Rightarrow> CellEvaluator \<Rightarrow> (string \<times> real) list \<Rightarrow> error + responses" where
  "run_protocols nrn ev param_values =
     run_protocols_from nrn (cell_model ev) param_values Map.empty
       (map snd (fitness_protocols ev))"

text \<open>
  Modelled from the spec: the score an \<open>eFELFeature\<close>
  (\<open>bluepyopt.ephys.efeatures\<close>, which the notebook does not define) gives
  when its feature has no value, the largest score of the library.
\<close>

definition max_score :: real where
  "max_score = 250"

text \<open>
  Modelled from the spec: \<open>eFELFeature.calculate_score\<close> of
  \<open>bluepyopt.ephys.efeatures\<close>, which the notebook does not define. The
  fitness score is feature-based: the feature named \<open>efel_feature_name\<close> is
  extracted from the recording that \<open>recording_names\<close> gives for the empty
  key, over the window from \<open>stim_start\<close> to \<open>stim_end\<close>, and the score is
  its deviation from \<open>exp_mean\<close> in units of \<open>exp_std\<close>. A feature with no
  entry for the empty key is an error. When the recording is missing from the
  responses, or eFEL yields no value, the score is \<open>max_score\<close>.
\<close>

definition calculate_feature_score :: "efel \<Rightarrow> eFELFeature \<Rightarrow> responses \<Rightarrow> error + real" where
  "calculate_feature_score ef f resp =
     (case map_of (recording_names f) [] of
        None \<Rightarrow> Inl MissingMainRecording
      | Some recording_name \<Rightarrow>
          (case resp recording_name of
             None \<Rightarrow> Inr max_score
           | Some trace \<Rightarrow>
               (case ef (efel_feature_name f) (ef_stim_start f) (ef_stim_end f) trace of
                  None \<Rightarrow> Inr max_score
                | Some feature_value \<Rightarrow>
                    Inr (\<bar>feature_value - exp_mean f\<bar> / exp_std f))))"

text \<open>
  Modelled from the spec: the loop of \<open>ObjectivesCalculator.calculate_scores\<close>
  (\<open>bluepyopt.ephys.objectivescalculators\<close>, which the notebook does not
  define) over the objectives. Each objective's score is stored under the
  objective's name; the score of a \<open>SingletonObjective\<close> is the score of its
  one feature. The objectives are taken in order, so a later objective of the
  same name replaces an earlier one, and the first error ends the loop.
\<close>

fun score_dict ::
  "efel \<Rightarrow> responses \<Rightarrow> (string \<rightharpoonup> real) \<Rightarrow> SingletonObjective list \<Rightarrow> error + (string \<rightharpoonup> real)" where
  "score_dict ef resp acc [] = Inr acc"
| "score_dict ef resp acc (ob # obs) =
     (case calculate_feature_score ef (obj_feature ob) resp of
        Inl e \<Rightarrow> Inl e
      | Inr s \<Rightarrow> score_dict ef resp (acc(obj_name ob \<mapsto> s)) obs)"

text \<open>
  Modelled from the spec: \<open>ObjectivesCalculator.calculate_scores\<close> of
  \<open>bluepyopt.ephys.objectivescalculators\<close>, which the notebook does not
  define. The calculator returns the dictionary that gives, under each
  objective's name, the score of that objective on the responses.
\<close>

definition calculate_scores ::
  "efel \<Rightarrow> ObjectivesCalculator \<Rightarrow> responses \<Rightarrow> error + (string \<rightharpoonup> real)" where
  "calculate_scores ef calc resp = score_dict ef resp Map.empty (objectives calc)"

text \<open>
  Modelled from the spec: \<open>CellEvaluator.evaluate_with_dicts\<close> of
  \<open>bluepyopt.ephys.evaluators\<close>, which the notebook calls and does not
  define. The evaluator runs its fitness protocols with the given parameter
  values and hands the responses to its fitness calculator; what raises in
  the run raises out of the evaluation.
\<close>

definition evaluate_with_dicts ::
  "neuron \<Rightarrow> efel \<Rightarrow> CellEvaluator \<Rightarrow> (string \<times> real) list \<Rightarrow> error + (string \<rightharpoonup> real)" where
  "evaluate_with_dicts nrn ef ev param_dict =
     (case run_protocols nrn ev param_dict of
        Inl e \<Rightarrow> Inl e
      | Inr resp \<Rightarrow> calculate_scores ef (fitness_calculator ev) resp)"

section \<open>Properties\<close>

subsection \<open>The stimulus window\<close>

lemma stim_end_value: "stim_end = 45"
  by (simp add: stim_end_def stim_start_def interval_def number_def)

lemma netstim_event_times: "event_times netstim = [20, 25, 30, 35, 40]"
  by (simp add: event_times_def netstim_def stim_start_def upt_rec)

lemma netstim_total_duration: "total_duration netstim = 200"
  by (simp add: netstim_def)

lemma feature_window:
  "ef_stim_start max_volt_feature = 20" "ef_stim_end max_volt_feature = 45"
  by (simp_all add: max_volt_feature_def stim_end_value stim_start_def)

text \<open>
  C7. With \<open>stim_start = 20\<close>, \<open>interval = 5\<close> and \<open>number = 5\<close> the notebook's
  \<open>stim_end = stim_start + interval * number\<close> is exactly 45. The window of the
  eFEL feature is therefore [20, 45]; it contains each of the five presynaptic
  event times 20, 25, 30, 35, 40 of the stimulus, and it lies inside the
  stimulus's total duration of 200.
\<close>

theorem stim_window_covers_events:
  "stim_start = 20 \<and> interval = 5 \<and> number = 5
   \<and> stim_end = 45
   \<and> ef_stim_start max_volt_feature = 20 \<and> ef_stim_end max_volt_feature = 45
   \<and> event_times netstim = [20, 25, 30, 35, 40]
   \<and> list_all (\<lambda>t. ef_stim_start max_volt_feature \<le> t \<and> t \<le> ef_stim_end max_volt_feature)
        (event_times netstim)
   \<and> 0 \<le> ef_stim_start max_volt_feature
   \<and> ef_stim_end max_volt_feature \<le> total_duration netstim
   \<and> total_duration netstim = 200"
  by (simp add: netstim_event_times netstim_total_duration feature_window
      stim_end_value stim_start_def interval_def number_def)

subsection \<open>Scores of an objectives calculator\<close>

lemma score_dict_dom:
  "score_dict ef resp acc obs = Inr m \<Longrightarrow> dom m = dom acc \<union> obj_name ` set obs"
  by (induction obs arbitrary: acc) (auto split: sum.splits)

lemma calculate_feature_score_nonneg:
  "calculate_feature_score ef f resp = Inr s \<Longrightarrow> 0 < exp_std f \<Longrightarrow> 0 \<le> s"
  by (auto simp: calculate_feature_score_def max_score_def split: option.splits)

lemma score_dict_nonneg:
  "score_dict ef resp acc obs = Inr m \<Longrightarrow>
   (\<And>k v. acc k = Some v \<Longrightarrow> 0 \<le> v) \<Longrightarrow>
   (\<And>ob. ob \<in> set obs \<Longrightarrow> 0 < exp_std (obj_feature ob)) \<Longrightarrow>
   m k = Some v \<Longrightarrow> 0 \<le> v"
proof (induction obs arbitrary: acc)
  case Nil
  then show ?case by auto
next
  case (Cons ob obs)
  from Cons.prems(1) obtain s where
    s: "calculate_feature_score ef (obj_feature ob) resp = Inr s"
    and rest: "score_dict ef resp (acc(obj_name ob \<mapsto> s)) obs = Inr m"
    by (auto split: sum.splits)
  have "0 \<le> s"
    using s Cons.prems(3) by (auto intro: calculate_feature_score_nonneg)
  then have acc': "\<And>k v. (acc(obj_name ob \<mapsto> s)) k = Some v \<Longrightarrow> 0 \<le> v"
    using Cons.prems(2) by (auto split: if_splits)
  show ?case
    using Cons.IH [OF rest acc' _ Cons.prems(4)] Cons.prems(3) by auto
qed

subsection \<open>The notebook's evaluator\<close>

lemma notebook_freeze:
  "0 \<le> tau \<Longrightarrow> tau \<le> 50 \<Longrightarrow>
   CellModel_freeze cell [(''expsyn_tau'', tau)] =
     Inr (cell\<lparr>params := [expsyn_tau_param\<lparr>par_value := tau\<rparr>]\<rparr>)"
  by (simp add: cell_def expsyn_tau_param_def within_bounds_def)

lemma notebook_responses:
  assumes "0 \<le> tau" and "tau \<le> 50"
  shows "run_protocols nrn cell_evaluator [(''expsyn_tau'', tau)] =
     Inr [''soma.v'' \<mapsto>
       nrn (cell\<lparr>params := [expsyn_tau_param\<lparr>par_value := tau\<rparr>]\<rparr>) [netstim] rec]"
proof -
  have "SweepProtocol_run nrn protocol cell [(''expsyn_tau'', tau)] =
      Inr [''soma.v'' \<mapsto>
        nrn (cell\<lparr>params := [expsyn_tau_param\<lparr>par_value := tau\<rparr>]\<rparr>) [netstim] rec]"
    unfolding SweepProtocol_run_def notebook_freeze [OF assms]
    by (simp add: protocol_def rec_def)
  then show ?thesis
    by (simp add: run_protocols_def cell_evaluator_def)
qed

lemma notebook_evaluate:
  assumes "0 \<le> tau" and "tau \<le> 50"
  shows "evaluate_with_dicts nrn ef cell_evaluator [(''expsyn_tau'', tau)] =
     Inr [''maximum_voltage'' \<mapsto>
       (case ef ''maximum_voltage'' 20 45
          (nrn (cell\<lparr>params := [expsyn_tau_param\<lparr>par_value := tau\<rparr>]\<rparr>) [netstim] rec) of
          None \<Rightarrow> max_score
        | Some feature_value \<Rightarrow> \<bar>feature_value - (- 50)\<bar> / (1 / 10))]"
  unfolding evaluate_with_dicts_def notebook_responses [OF assms]
  by (simp add: calculate_scores_def cell_evaluator_def score_calc_def
      max_volt_objective_def max_volt_feature_def calculate_feature_score_def
      stim_end_value stim_start_def split: option.splits)

lemma notebook_objective_names:
  "obj_name ` set (objectives (fitness_calculator cell_evaluator)) = {''maximum_voltage''}"
  by (simp add: cell_evaluator_def score_calc_def max_volt_objective_def max_volt_feature_def)

lemma notebook_exp_std:
  "ob \<in> set (objectives (fitness_calculator cell_evaluator)) \<Longrightarrow> 0 < exp_std (obj_feature ob)"
  by (simp add: cell_evaluator_def score_calc_def max_volt_objective_def max_volt_feature_def)

lemma out_of_bounds_raises:
  "tau < 0 \<or> 50 < tau \<Longrightarrow>
   evaluate_with_dicts nrn ef cell_evaluator [(''expsyn_tau'', tau)] =
     Inl (OutOfBounds ''expsyn_tau'' tau)"
  by (auto simp: evaluate_with_dicts_def run_protocols_def cell_evaluator_def
      SweepProtocol_run_def cell_def expsyn_tau_param_def within_bounds_def)

lemma unknown_key_raises:
  "evaluate_with_dicts nrn ef cell_evaluator [(''expsyn_tau'', 10), (''foo'', 1)] =
     Inl (KeyError ''foo'')"
  by (simp add: evaluate_with_dicts_def run_protocols_def cell_evaluator_def
      SweepProtocol_run_def cell_def expsyn_tau_param_def within_bounds_def)

text \<open>
  C8, as the claim states it, fails: the dictionary that binds \<open>expsyn_tau\<close>
  to 100 binds the parameter, and the evaluation raises on the bounds [0, 50]
  the parameter is declared with instead of returning a dictionary of scores.
\<close>

theorem evaluate_with_dicts_out_of_bounds:
  "map_of [(''expsyn_tau'', 100 :: real)] ''expsyn_tau'' = Some 100
   \<and> evaluate_with_dicts (\<lambda>cm st r. \<lparr>time = [0, 25], voltage = [- 70, - 47]\<rparr>)
       (\<lambda>n a b tr. Some (Max (set (voltage tr)))) cell_evaluator [(''expsyn_tau'', 100)]
     = Inl (OutOfBounds ''expsyn_tau'' 100)"
  by (simp add: out_of_bounds_raises)

text \<open>
  C8, amended. For every parameter dictionary that binds \<open>expsyn_tau\<close> to a
  value within the declared bounds [0, 50] and has no other key, whatever the
  simulator records and whatever eFEL extracts, \<open>evaluate_with_dicts\<close> of the
  notebook's evaluator returns a dictionary without raising. Its key set is
  exactly the set of objective names of the fitness calculator, which here is
  the single key \<open>maximum_voltage\<close>, the name of the one \<open>SingletonObjective\<close>,
  and the value under that key is a non-negative real score.
\<close>

theorem evaluate_with_dicts_keys_and_sign:
  assumes "param_dict = [(''expsyn_tau'', tau)]" and "0 \<le> tau" and "tau \<le> 50"
  shows "\<exists>scores s.
           evaluate_with_dicts nrn ef cell_evaluator param_dict = Inr scores
         \<and> dom scores = obj_name ` set (objectives (fitness_calculator cell_evaluator))
         \<and> dom scores = {''maximum_voltage''}
         \<and> scores ''maximum_voltage'' = Some s \<and> 0 \<le> s"
proof -
  obtain resp where run: "run_protocols nrn cell_evaluator param_dict = Inr resp"
    using notebook_responses [OF assms(2,3)] assms(1) by blast
  obtain scores where ev: "evaluate_with_dicts nrn ef cell_evaluator param_dict = Inr scores"
    using notebook_evaluate [OF assms(2,3)] assms(1) by blast
  with run have sd: "score_dict ef resp Map.empty
      (objectives (fitness_calculator cell_evaluator)) = Inr scores"
    by (simp add: evaluate_with_dicts_def calculate_scores_def)
  have keys: "dom scores = obj_name ` set (objectives (fitness_calculator cell_evaluator))"
    using score_dict_dom [OF sd] by simp
  then have "''maximum_voltage'' \<in> dom scores"
    by (simp add: notebook_objective_names)
  then obtain s where s: "scores ''maximum_voltage'' = Some s"
    by blast
  have "0 \<le> s"
    using score_dict_nonneg [OF sd _ _ s] notebook_exp_std by simp
  with ev keys s show ?thesis
    by (simp add: notebook_objective_names)
qed

theorem evaluate_with_dicts_keys_and_sign_witness:
  "default_param_values = [(''expsyn_tau'', 10)] \<and> (0 :: real) \<le> 10 \<and> (10 :: real) \<le> 50
   \<and> (\<exists>scores s.
         evaluate_with_dicts (\<lambda>cm st r. \<lparr>time = [0, 25], voltage = [- 70, - 47]\<rparr>)
           (\<lambda>n a b tr. Some (Max (set (voltage tr)))) cell_evaluator default_param_values
           = Inr scores
       \<and> dom scores = obj_name ` set (objectives (fitness_calculator cell_evaluator))
       \<and> dom scores = {''maximum_voltage''}
       \<and> scores ''maximum_voltage'' = Some s \<and> 0 \<le> s)"
proof -
  have h: "default_param_values = [(''expsyn_tau'', 10)]"
    by (simp add: default_param_values_def)
  have lo: "(0 :: real) \<le> 10" and hi: "(10 :: real) \<le> 50"
    by simp_all
  show ?thesis
    using h evaluate_with_dicts_keys_and_sign
      [where param_dict = default_param_values and tau = 10
         and nrn = "\<lambda>cm st r. \<lparr>time = [0, 25], voltage = [- 70, - 47]\<rparr>"
         and ef = "\<lambda>n a b tr. Some (Max (set (voltage tr)))", OF h lo hi]
    by simp
qed

end
